theory Spec2Isabelle
  imports Complex_Main
begin

section \<open>Values of the runtime\<close>

text \<open>
  The class \<^verbatim>\<open>ClippoService\<close> is embedded: the handler of cursor-sequence tool calls
  with the frame capture and the vision lookups it uses, the operations \<^verbatim>\<open>start\<close>,
  \<^verbatim>\<open>stop\<close>, \<^verbatim>\<open>send\<close> and \<^verbatim>\<open>sendRealtimeInput\<close>, and the listeners on the protocol client.
  The answers of the vision model come out of \<^verbatim>\<open>JSON.parse\<close>, so a location is an
  arbitrary JavaScript value. Numbers are modelled as reals (exact arithmetic, no
  rounding and no NaN); a string is a list of characters, one per code point.
\<close>

datatype js_value =
    Undefined
  | Null
  | Bool bool
  | Num real
  | Str string
  | Arr "js_value list"
  | Obj "(string \<times> js_value) list"

datatype error =
    Error string
  | TypeError
  | VisionLookupFailure
  | NotConnected
  | ConnectionError

text \<open>An awaited promise: fulfilled, rejected, or never settled.\<close>

datatype 'a promise = Resolved 'a | Rejected error | Pending

text \<open>\<^verbatim>\<open>xs[i]\<close> on an array: \<^verbatim>\<open>undefined\<close> out of range.\<close>

definition element :: "js_value list \<Rightarrow> nat \<Rightarrow> js_value" where
  "element xs i = (if i < length xs then xs ! i else Undefined)"

text \<open>
  \<^verbatim>\<open>v.point\<close>: a TypeError on \<^verbatim>\<open>undefined\<close> and \<^verbatim>\<open>null\<close>, \<^verbatim>\<open>undefined\<close> on the other
  primitives and on an object without the key. \<^verbatim>\<open>JSON.parse\<close> keeps the last value of a
  repeated key.
\<close>

fun get_point :: "js_value \<Rightarrow> error + js_value" where
  "get_point Undefined = Inl TypeError"
| "get_point Null = Inl TypeError"
| "get_point (Obj kvs) =
     (case map_of (rev kvs) ''point'' of None \<Rightarrow> Inr Undefined | Some v \<Rightarrow> Inr v)"
| "get_point _ = Inr Undefined"

text \<open>\<^verbatim>\<open>Array.isArray(loc) ? loc[0] : loc.point\<close>\<close>

fun point_of :: "js_value \<Rightarrow> error + js_value" where
  "point_of (Arr xs) = Inr (element xs 0)"
| "point_of loc = get_point loc"

text \<open>The condition \<^verbatim>\<open>if (point)\<close>.\<close>

fun truthy :: "js_value \<Rightarrow> bool" where
  "truthy Undefined = False"
| "truthy Null = False"
| "truthy (Bool b) = b"
| "truthy (Num n) = (n \<noteq> 0)"
| "truthy (Str s) = (s \<noteq> [])"
| "truthy (Arr _) = True"
| "truthy (Obj _) = True"

text \<open>
  \<^verbatim>\<open>const [y, x] = point\<close>: arrays and strings are iterable (a string yields its code
  points), every other value raises a TypeError.
\<close>

fun destructure :: "js_value \<Rightarrow> error + (js_value \<times> js_value)" where
  "destructure (Arr xs) = Inr (element xs 0, element xs 1)"
| "destructure (Str s) = Inr (element (map (\<lambda>c. Str [c]) s) 0, element (map (\<lambda>c. Str [c]) s) 1)"
| "destructure _ = Inl TypeError"

section \<open>Tool calls and timers\<close>

text \<open>
  The declared schema of \<^verbatim>\<open>move_cursor_sequence\<close>: \<^verbatim>\<open>args.points\<close> is an array of
  objects with a string \<^verbatim>\<open>description\<close> and a number \<^verbatim>\<open>delay\<close>, both required.
\<close>

record cursor_point =
  description :: string
  delay :: real

record function_call =
  name :: string
  args_points :: "cursor_point list"

record tool_call =
  functionCalls :: "function_call list"

text \<open>
  A pending \<^verbatim>\<open>setTimeout(() => this.raiseMoveCursorEvent(x, y), cumulativeDelay)\<close>: the
  delay in milliseconds and the two captured coordinates.
\<close>

record timer =
  timeout :: real
  timer_x :: js_value
  timer_y :: js_value

record cursor_position =
  pos_x :: js_value
  pos_y :: js_value

section \<open>The scheduling loop of handleMoveCursorInSequence\<close>

text \<open>
  The \<^verbatim>\<open>for\<close> loop over \<^verbatim>\<open>locations\<close>, from index \<open>i\<close> with the running
  \<^verbatim>\<open>cumulativeDelay\<close>. It returns the timers it registered, in order, and the error that
  ended it early, if any. \<^verbatim>\<open>points[i]\<close> out of range is \<^verbatim>\<open>undefined\<close>, whose
  \<^verbatim>\<open>.delay\<close> raises.

  The arithmetic of \<^verbatim>\<open>cumulativeDelay += points[i].delay * 1000\<close> is exact here, where the
  source rounds to IEEE doubles. The statements about the loop below use delays whose
  products and sums are exact in doubles too (whole seconds), or compare two runs of the
  loop over the same numbers.
\<close>

function for_loop ::
  "nat \<Rightarrow> real \<Rightarrow> js_value list \<Rightarrow> cursor_point list \<Rightarrow> timer list \<times> error option" where
  "for_loop i cumulativeDelay locations points =
     (if i < length locations then
        (case point_of (locations ! i) of
           Inl e \<Rightarrow> ([], Some e)
         | Inr point \<Rightarrow>
             if i < length points then
               (let cumulativeDelay' = cumulativeDelay + delay (points ! i) * 1000 in
                if truthy point then
                  (case destructure point of
                     Inl e \<Rightarrow> ([], Some e)
                   | Inr (y, x) \<Rightarrow>
                       (case for_loop (i + 1) cumulativeDelay' locations points of
                          (ts, r) \<Rightarrow>
                            (\<lparr>timeout = cumulativeDelay', timer_x = x, timer_y = y\<rparr> # ts, r)))
                else for_loop (i + 1) cumulativeDelay' locations points)
             else ([], Some TypeError))
      else ([], None))"
  by pat_completeness auto
termination
  by (relation "measure (\<lambda>(i, c, locations, points). length locations - i)") auto

declare for_loop.simps [simp del]

section \<open>Frame capture and vision lookup\<close>

text \<open>
  What \<^verbatim>\<open>captureLastFrame\<close> reads of a \<^verbatim>\<open>MediaStream\<close> and of the page: the video
  tracks, whether the video element ever reports its metadata, whether the canvas gives a
  2d context, and the data URL the canvas produces.
\<close>

record media_stream =
  videoTracks :: "string list"
  loads_metadata :: bool
  has_context :: bool
  data_url :: string

definition captureLastFrame :: "media_stream \<Rightarrow> string promise" where
  "captureLastFrame stream =
     (if videoTracks stream = [] then Rejected (Error ''No video track found in stream'')
      else if \<not> loads_metadata stream then Pending
      else if \<not> has_context stream then Rejected (Error ''Could not get canvas context'')
      else Resolved (data_url stream))"

text \<open>\<^verbatim>\<open>s.includes(sub)\<close>, \<^verbatim>\<open>s.indexOf(c)\<close> and \<^verbatim>\<open>s.slice(n)\<close> on strings.\<close>

fun startsWith :: "string \<Rightarrow> string \<Rightarrow> bool" where
  "startsWith s [] = True"
| "startsWith [] (c # cs) = False"
| "startsWith (d # ds) (c # cs) = (d = c \<and> startsWith ds cs)"

fun includesStr :: "string \<Rightarrow> string \<Rightarrow> bool" where
  "includesStr [] sub = (sub = [])"
| "includesStr (d # ds) sub = (startsWith (d # ds) sub \<or> includesStr ds sub)"

fun indexOf :: "string \<Rightarrow> char \<Rightarrow> int" where
  "indexOf [] c = - 1"
| "indexOf (d # ds) c =
     (if d = c then 0 else (let r = indexOf ds c in if r < 0 then - 1 else r + 1))"

definition slice :: "string \<Rightarrow> int \<Rightarrow> string" where
  "slice s n = (if n < 0 then drop (nat (int (length s) + n)) s else drop (nat n) s)"

text \<open>The data URL prefix is removed, if there is one.\<close>

definition imageData :: "string \<Rightarrow> string" where
  "imageData base64Image =
     (if includesStr base64Image ''data:image''
      then slice base64Image (indexOf base64Image (CHR '','') + 1)
      else base64Image)"

definition dq :: string where
  "dq = [CHR 0x22]"

definition prompt :: "string \<Rightarrow> string" where
  "prompt d =
     ''Find the location of: '' @ dq @ d @ dq
     @ ''. The answer should follow the json format: {'' @ dq @ ''point'' @ dq
     @ '': <point>, '' @ dq @ ''label'' @ dq @ '': <label1>}. ''
     @ ''The point should be in [y, x] format normalized to 0-1000. ''
     @ ''Return only one point that best matches the description. ''
     @ ''Do not wrap the JSON in markdown quotes. Just return the JSON string.''"

text \<open>
  One lookup, \<^verbatim>\<open>model.generateContent\<close> followed by \<^verbatim>\<open>JSON.parse\<close> of the answer's
  text: the request is rejected (or the answer has no text), or the text does not parse,
  or it parses to a value. The remote model is a parameter: a function of the image data
  and the prompt it is sent.
\<close>

datatype vision_outcome = Rejects | Unparseable | Parses js_value

type_synonym vision = "string \<Rightarrow> string \<Rightarrow> vision_outcome"

fun parsed :: "vision_outcome \<Rightarrow> js_value option" where
  "parsed (Parses v) = Some v"
| "parsed _ = None"

text \<open>
  \<^verbatim>\<open>Promise.all\<close> over the lookups: every request is issued, in point order; the result
  is the list of parsed values when each lookup succeeds, and a rejection as soon as one
  fails. The requests issued are returned with the result.
\<close>

definition getPointsFromImage ::
  "vision \<Rightarrow> string \<Rightarrow> cursor_point list \<Rightarrow> (string \<times> string) list \<times> js_value list promise" where
  "getPointsFromImage generateContent base64Image points =
     (let requests = map (\<lambda>p. (imageData base64Image, prompt (description p))) points;
          results = map (\<lambda>(img, text). parsed (generateContent img text)) requests
      in (requests,
          if list_all (\<lambda>r. r \<noteq> None) results then Resolved (map the results)
          else Rejected VisionLookupFailure))"

section \<open>handleMoveCursorInSequence\<close>

text \<open>
  One run of the handler: the streams handed to \<^verbatim>\<open>captureLastFrame\<close>, the lookup
  requests issued, the timers registered, and how the returned promise settles.
\<close>

record run =
  captures :: "media_stream list"
  lookups :: "(string \<times> string) list"
  scheduled :: "timer list"
  outcome :: "unit promise"

definition nothing :: run where
  "nothing = \<lparr>captures = [], lookups = [], scheduled = [], outcome = Resolved ()\<rparr>"

definition handleMoveCursorInSequence ::
  "vision \<Rightarrow> media_stream option \<Rightarrow> tool_call option \<Rightarrow> run" where
  "handleMoveCursorInSequence generateContent screenStream toolCall =
     (case toolCall of
        None \<Rightarrow> nothing
      | Some tc \<Rightarrow>
          (case functionCalls tc of
             [] \<Rightarrow> nothing
           | fc # _ \<Rightarrow>
               if name fc = ''move_cursor_sequence'' then
                 (let points = args_points fc in
                  if 0 < length points then
                    (case screenStream of
                       None \<Rightarrow> nothing
                     | Some stream \<Rightarrow>
                         (case captureLastFrame stream of
                            Pending \<Rightarrow> nothing\<lparr>captures := [stream], outcome := Pending\<rparr>
                          | Rejected e \<Rightarrow> nothing\<lparr>captures := [stream], outcome := Rejected e\<rparr>
                          | Resolved lastCapturedFrame \<Rightarrow>
                              (case getPointsFromImage generateContent lastCapturedFrame points of
                                 (reqs, Pending) \<Rightarrow>
                                   \<lparr>captures = [stream], lookups = reqs, scheduled = [],
                                    outcome = Pending\<rparr>
                               | (reqs, Rejected e) \<Rightarrow>
                                   \<lparr>captures = [stream], lookups = reqs, scheduled = [],
                                    outcome = Rejected e\<rparr>
                               | (reqs, Resolved locations) \<Rightarrow>
                                   (case for_loop 0 0 locations points of
                                      (ts, None) \<Rightarrow>
                                        \<lparr>captures = [stream], lookups = reqs, scheduled = ts,
                                         outcome = Resolved ()\<rparr>
                                    | (ts, Some e) \<Rightarrow>
                                        \<lparr>captures = [stream], lookups = reqs, scheduled = ts,
                                         outcome = Rejected e\<rparr>))))
                  else nothing)
               else nothing))"

section \<open>The protocol client\<close>

text \<open>
  The service imports the class \<^verbatim>\<open>MultimodalLiveClient\<close> from \<^verbatim>\<open>./ws-client\<close> and its
  types from \<^verbatim>\<open>./types\<close>; neither module is available. The service calls \<^verbatim>\<open>connect\<close>,
  \<^verbatim>\<open>disconnect\<close>, \<^verbatim>\<open>send\<close> and \<^verbatim>\<open>sendRealtimeInput\<close> of the client; these four are modelled
  from section 4.1 of the specification (SessionProtocolClient).
\<close>

record live_config =
  model :: string
  responseModalities :: string
  voiceName :: string
  systemInstruction :: string
  tools :: "string list"

datatype part = Text string

record blob =
  mimeType :: string
  blob_data :: string

datatype wire_message =
    Setup live_config
  | ClientContent part
  | RealtimeInput blob

datatype session_state = Idle | Connecting | Active | Closing | Closed | ClosedError

record transport =
  is_open :: bool
  written :: "wire_message list"

text \<open>
  Modelled from the spec: the state of \<^verbatim>\<open>MultimodalLiveClient\<close> is missing. The client
  owns one session (a state among Idle, Connecting, Active, Closing, Closed, Closed-Error)
  over a transport it holds while connected. \<open>released\<close> lists the transports it no
  longer holds, so that a transport let go while still open (a leak) shows. Tearing a
  transport down closes and releases it; writing appends to the messages of the transport
  held.
\<close>

record ws_client =
  session :: session_state
  current :: "transport option"
  released :: "transport list"

definition teardown :: "ws_client \<Rightarrow> ws_client" where
  "teardown c =
     (case current c of
        None \<Rightarrow> c
      | Some t \<Rightarrow> c\<lparr>current := None, released := released c @ [t\<lparr>is_open := False\<rparr>]\<rparr>)"

definition let_go :: "ws_client \<Rightarrow> ws_client" where
  "let_go c =
     (case current c of
        None \<Rightarrow> c
      | Some t \<Rightarrow> c\<lparr>current := None, released := released c @ [t]\<rparr>)"

definition write_all :: "wire_message list \<Rightarrow> ws_client \<Rightarrow> ws_client" where
  "write_all ms c = c\<lparr>current := map_option (\<lambda>t. t\<lparr>written := written t @ ms\<rparr>) (current c)\<rparr>"

text \<open>
  Modelled from the spec: \<^verbatim>\<open>MultimodalLiveClient.disconnect\<close> is missing. "closes the
  transport if open; always leaves state Closed; never throws", and is idempotent.
\<close>

definition ws_disconnect :: "ws_client \<Rightarrow> ws_client" where
  "ws_disconnect c = (teardown c)\<lparr>session := Closed\<rparr>"

text \<open>
  Modelled from the spec: \<^verbatim>\<open>MultimodalLiveClient.connect\<close> is missing. "connect() from any
  non-Idle state first forces a teardown of the existing transport before proceeding"; it
  "opens the transport, sends a setup/handshake message built from config, and resolves
  once the transport confirms open (or rejects with a Connection error if the transport
  fails before confirmation)"; a transport error moves the session to Closed-Error.
  Whether the transport confirms is the parameter \<open>opens\<close>.
\<close>

definition ws_connect :: "bool \<Rightarrow> live_config \<Rightarrow> ws_client \<Rightarrow> unit promise \<times> ws_client" where
  "ws_connect opens cfg c =
     (let c1 = let_go (if session c \<noteq> Idle then teardown c else c) in
      if opens
      then (Resolved (),
            c1\<lparr>session := Active, current := Some \<lparr>is_open = True, written = [Setup cfg]\<rparr>\<rparr>)
      else (Rejected ConnectionError,
            c1\<lparr>session := ClosedError,
               released := released c1 @ [\<lparr>is_open = False, written = []\<rparr>]\<rparr>))"


text \<open>
  Modelled from the spec: \<^verbatim>\<open>MultimodalLiveClient.sendRealtimeInput\<close> is missing. "fails
  with NotConnected if not Active; writes each chunk (audio/image) as a realtime-input
  message; [...] each chunk is its own wire message."
\<close>

definition ws_sendRealtimeInput :: "blob list \<Rightarrow> ws_client \<Rightarrow> (error + unit) \<times> ws_client" where
  "ws_sendRealtimeInput chunks c =
     (if session c \<noteq> Active then (Inl NotConnected, c)
      else (Inr (), write_all (map RealtimeInput chunks) c))"

text \<open>Every message on any transport of the client, and the transports still open.\<close>

definition transports :: "ws_client \<Rightarrow> transport list" where
  "transports c = released c @ (case current c of None \<Rightarrow> [] | Some t \<Rightarrow> [t])"

definition wire :: "ws_client \<Rightarrow> wire_message list" where
  "wire c = concat (map written (transports c))"

definition open_transports :: "ws_client \<Rightarrow> nat" where
  "open_transports c = length (filter is_open (transports c))"

section \<open>The service\<close>

datatype server_content = ModelTurn string | TurnComplete | Interrupted

text \<open>
  The fields of \<^verbatim>\<open>ClippoService\<close>. A \<^verbatim>\<open>BehaviorSubject\<close> is its current value. The audio
  streamer (\<^verbatim>\<open>./audio-streamer\<close>, not among the sources) is a value of the type parameter;
  \<open>pendingTimers\<close> are the timers the service has registered that have not fired.
\<close>

record 'a service =
  streamSubject :: "media_stream option"
  screenStream :: "media_stream option"
  isStreamingSubject :: bool
  connectedSubject :: bool
  isConnected :: bool
  streamedMessage :: string
  contentSubject :: "server_content option"
  toolSubject :: "tool_call option"
  wsClient :: ws_client
  audioStreamer :: "'a option"
  cursorPositionSubject :: "cursor_position option"
  config :: live_config
  pendingTimers :: "timer list"

definition setConnected :: "bool \<Rightarrow> 'a service \<Rightarrow> 'a service" where
  "setConnected b st = st\<lparr>isConnected := b, connectedSubject := b\<rparr>"

text \<open>\<^verbatim>\<open>if (this.audioStreamer) this.audioStreamer.stop()\<close>, the streamer's \<^verbatim>\<open>stop\<close> a parameter.\<close>

definition stopAudioStreamer :: "('a \<Rightarrow> 'a) \<Rightarrow> 'a service \<Rightarrow> 'a service" where
  "stopAudioStreamer stop st = st\<lparr>audioStreamer := map_option stop (audioStreamer st)\<rparr>"

definition addAudioData :: "(nat list \<Rightarrow> 'a \<Rightarrow> 'a) \<Rightarrow> nat list \<Rightarrow> 'a service \<Rightarrow> 'a service" where
  "addAudioData addPCM16 bytes st =
     st\<lparr>audioStreamer := map_option (addPCM16 bytes) (audioStreamer st)\<rparr>"

definition raiseMoveCursorEvent :: "js_value \<Rightarrow> js_value \<Rightarrow> 'a service \<Rightarrow> 'a service" where
  "raiseMoveCursorEvent x y st = st\<lparr>cursorPositionSubject := Some \<lparr>pos_x = x, pos_y = y\<rparr>\<rparr>"

text \<open>A pending timer comes due: its callback runs.\<close>

definition fire :: "timer \<Rightarrow> 'a service \<Rightarrow> 'a service" where
  "fire t st =
     raiseMoveCursorEvent (timer_x t) (timer_y t)
       (st\<lparr>pendingTimers := remove1 t (pendingTimers st)\<rparr>)"

text \<open>
  \<^verbatim>\<open>start\<close>: the client is disconnected, then connected with the service's config. The
  outcome of \<^verbatim>\<open>getDisplayMedia\<close> is the parameter \<open>display\<close>.
\<close>

definition start ::
  "bool \<Rightarrow> media_stream promise \<Rightarrow> 'a service \<Rightarrow> media_stream option promise \<times> 'a service" where
  "start opens display st =
     (case ws_connect opens (config st) (ws_disconnect (wsClient st)) of
        (Resolved u, c) \<Rightarrow>
          (let st1 = setConnected True (st\<lparr>wsClient := c\<rparr>) in
           case display of
             Resolved mediaStream \<Rightarrow>
               (Resolved (Some mediaStream),
                st1\<lparr>streamSubject := Some mediaStream, isStreamingSubject := True,
                    screenStream := Some mediaStream\<rparr>)
           | Rejected e \<Rightarrow> (Resolved None, st1\<lparr>isStreamingSubject := False\<rparr>)
           | Pending \<Rightarrow> (Pending, st1))
      | (Rejected e, c) \<Rightarrow> (Rejected e, setConnected False (st\<lparr>wsClient := c\<rparr>))
      | (Pending, c) \<Rightarrow> (Pending, st\<lparr>wsClient := c\<rparr>))"

definition stop :: "('a \<Rightarrow> 'a) \<Rightarrow> 'a service \<Rightarrow> 'a service" where
  "stop stopStreamer st =
     (let st1 = setConnected False
                  (stopAudioStreamer stopStreamer (st\<lparr>wsClient := ws_disconnect (wsClient st)\<rparr>))
      in case streamSubject st1 of
           None \<Rightarrow> st1
         | Some stream \<Rightarrow> st1\<lparr>streamSubject := None, isStreamingSubject := False\<rparr>)"


definition sendRealtimeInput :: "blob list \<Rightarrow> 'a service \<Rightarrow> unit promise \<times> 'a service" where
  "sendRealtimeInput chunks st =
     (case ws_sendRealtimeInput chunks (wsClient st) of
        (Inl e, c) \<Rightarrow> (Rejected e, st\<lparr>wsClient := c\<rparr>)
      | (Inr u, c) \<Rightarrow> (Resolved (), st\<lparr>wsClient := c\<rparr>))"

text \<open>
  The listeners of \<^verbatim>\<open>setupEventListeners\<close>, one event of the client at a time. The
  \<^verbatim>\<open>toolcall\<close> listener publishes the call and runs the handler, whose timers join the
  pending ones.
\<close>

datatype ws_event =
    OpenEvent
  | LogEvent
  | ContentEvent server_content
  | ToolCallEvent "tool_call option"
  | CloseEvent
  | InterruptedEvent
  | AudioEvent "nat list"

fun on_event ::
  "vision \<Rightarrow> ('a \<Rightarrow> 'a) \<Rightarrow> (nat list \<Rightarrow> 'a \<Rightarrow> 'a) \<Rightarrow> ws_event \<Rightarrow> 'a service \<Rightarrow> 'a service" where
  "on_event generateContent stopStreamer addPCM16 OpenEvent st = st"
| "on_event generateContent stopStreamer addPCM16 LogEvent st = st"
| "on_event generateContent stopStreamer addPCM16 (ContentEvent d) st =
     st\<lparr>contentSubject := Some d\<rparr>"
| "on_event generateContent stopStreamer addPCM16 (ToolCallEvent d) st =
     st\<lparr>toolSubject := d,
        pendingTimers := pendingTimers st
          @ scheduled (handleMoveCursorInSequence generateContent (screenStream st) d)\<rparr>"
| "on_event generateContent stopStreamer addPCM16 CloseEvent st = setConnected False st"
| "on_event generateContent stopStreamer addPCM16 InterruptedEvent st =
     stopAudioStreamer stopStreamer st"
| "on_event generateContent stopStreamer addPCM16 (AudioEvent bytes) st =
     addAudioData addPCM16 bytes st"

section \<open>Notions used in the statements\<close>

text \<open>
  The loop again, by recursion on the locations paired with their points. It is shown
  equal to \<open>for_loop\<close> below and serves the inductions.
\<close>

fun walk :: "real \<Rightarrow> (js_value \<times> cursor_point) list \<Rightarrow> timer list \<times> error option" where
  "walk c [] = ([], None)"
| "walk c ((loc, p) # zs) =
     (case point_of loc of
        Inl e \<Rightarrow> ([], Some e)
      | Inr point \<Rightarrow>
          if truthy point then
            (case destructure point of
               Inl e \<Rightarrow> ([], Some e)
             | Inr (y, x) \<Rightarrow>
                 (case walk (c + delay p * 1000) zs of
                    (ts, r) \<Rightarrow>
                      (\<lparr>timeout = c + delay p * 1000, timer_x = x, timer_y = y\<rparr> # ts, r)))
          else walk (c + delay p * 1000) zs)"


text \<open>The service as its constructor leaves it, for a given config.\<close>

definition new_client :: ws_client where
  "new_client = \<lparr>session = Idle, current = None, released = []\<rparr>"

definition new_service :: "live_config \<Rightarrow> 'a service" where
  "new_service cfg =
     \<lparr>streamSubject = None, screenStream = None, isStreamingSubject = False,
      connectedSubject = False, isConnected = False, streamedMessage = [],
      contentSubject = None, toolSubject = None, wsClient = new_client,
      audioStreamer = None, cursorPositionSubject = None, config = cfg,
      pendingTimers = []\<rparr>"

section \<open>Example inputs\<close>

definition example_stream :: media_stream where
  "example_stream =
     \<lparr>videoTracks = [''screen''], loads_metadata = True, has_context = True,
      data_url = ''data:image/jpeg;base64,AAAA''\<rparr>"

definition example_points :: "cursor_point list" where
  "example_points =
     [\<lparr>description = ''pad'', delay = 0\<rparr>, \<lparr>description = ''button'', delay = 3\<rparr>]"

definition example_call :: tool_call where
  "example_call =
     \<lparr>functionCalls = [\<lparr>name = ''move_cursor_sequence'', args_points = example_points\<rparr>]\<rparr>"

text \<open>A call whose cursor sequence comes second, after a call of another name.\<close>

definition late_call :: tool_call where
  "late_call =
     \<lparr>functionCalls =
        [\<lparr>name = ''other_tool'', args_points = []\<rparr>,
         \<lparr>name = ''move_cursor_sequence'', args_points = example_points\<rparr>]\<rparr>"

definition pad_answer :: js_value where
  "pad_answer = Obj [(''point'', Arr [Num 100, Num 200]), (''label'', Str ''pad'')]"

definition button_answer :: js_value where
  "button_answer = Obj [(''point'', Arr [Num 400, Num 500]), (''label'', Str ''button'')]"

definition example_vision :: vision where
  "example_vision img text =
     (if text = prompt ''pad'' then Parses pad_answer
      else if text = prompt ''button'' then Parses button_answer
      else Rejects)"

text \<open>The lookup of every description but "button" returns text that does not parse.\<close>

definition failing_vision :: vision where
  "failing_vision img text =
     (if text = prompt ''button'' then Parses button_answer else Unparseable)"



definition example_config :: live_config where
  "example_config =
     \<lparr>model = ''models/gemini-2.0-flash-exp'', responseModalities = ''audio'',
      voiceName = ''Aoede'', systemInstruction = ''You are a helpful assistant.'',
      tools = [''move_cursor_sequence'']\<rparr>"

text \<open>A service that has connected and shares the example stream.\<close>

definition connected_service :: "unit service" where
  "connected_service = snd (start True (Resolved example_stream) (new_service example_config))"


section \<open>The loop by recursion on the paired lists\<close>

lemma for_loop_walk:
  "length locations \<le> length points \<Longrightarrow>
   for_loop i c locations points = walk c (drop i (zip locations points))"
proof (induction i c locations points rule: for_loop.induct)
  case (1 i c locations points)
  show ?case
  proof (cases "i < length locations")
    case False
    then show ?thesis by (simp add: for_loop.simps)
  next
    case True
    with "1.prems" have ip: "i < length points" by simp
    from True ip have d: "drop i (zip locations points) =
        (locations ! i, points ! i) # drop (Suc i) (zip locations points)"
      by (simp add: Cons_nth_drop_Suc [symmetric])
    show ?thesis
      using True ip "1.IH" "1.prems"
      by (subst for_loop.simps) (auto simp: d Let_def split: sum.splits prod.splits)
  qed
qed

lemma zip_locations [simp]:
  "length points = length locations \<Longrightarrow> map fst (zip locations points) = locations"
  "length points = length locations \<Longrightarrow> map snd (zip locations points) = points"
  by (simp_all add: map_fst_zip map_snd_zip)






section \<open>Runs of the handler\<close>

lemma handle_processed:
  assumes "functionCalls tc = fc # rest" and "name fc = ''move_cursor_sequence''"
    and "args_points fc \<noteq> []" and "captureLastFrame stream = Resolved frame"
  shows "handleMoveCursorInSequence g (Some stream) (Some tc) =
     (case getPointsFromImage g frame (args_points fc) of
        (reqs, Pending) \<Rightarrow>
          \<lparr>captures = [stream], lookups = reqs, scheduled = [], outcome = Pending\<rparr>
      | (reqs, Rejected e) \<Rightarrow>
          \<lparr>captures = [stream], lookups = reqs, scheduled = [], outcome = Rejected e\<rparr>
      | (reqs, Resolved locations) \<Rightarrow>
          (case for_loop 0 0 locations (args_points fc) of
             (ts, None) \<Rightarrow>
               \<lparr>captures = [stream], lookups = reqs, scheduled = ts, outcome = Resolved ()\<rparr>
           | (ts, Some e) \<Rightarrow>
               \<lparr>captures = [stream], lookups = reqs, scheduled = ts, outcome = Rejected e\<rparr>))"
  using assms by (simp add: handleMoveCursorInSequence_def Let_def)

lemma handle_rejected:
  assumes "functionCalls tc = fc # rest" and "name fc = ''move_cursor_sequence''"
    and "args_points fc \<noteq> []" and "captureLastFrame stream = Resolved frame"
    and "snd (getPointsFromImage g frame (args_points fc)) = Rejected e"
  shows "handleMoveCursorInSequence g (Some stream) (Some tc) =
     \<lparr>captures = [stream], lookups = fst (getPointsFromImage g frame (args_points fc)),
      scheduled = [], outcome = Rejected e\<rparr>"
proof -
  obtain reqs r where gp: "getPointsFromImage g frame (args_points fc) = (reqs, r)"
    by (cases "getPointsFromImage g frame (args_points fc)")
  with assms(5) have "r = Rejected e" by simp
  then show ?thesis
    by (simp add: handle_processed [OF assms(1-4)] gp)
qed

lemma handle_resolved:
  assumes "functionCalls tc = fc # rest" and "name fc = ''move_cursor_sequence''"
    and "args_points fc \<noteq> []" and "captureLastFrame stream = Resolved frame"
    and "snd (getPointsFromImage g frame (args_points fc)) = Resolved locations"
  shows "handleMoveCursorInSequence g (Some stream) (Some tc) =
     \<lparr>captures = [stream], lookups = fst (getPointsFromImage g frame (args_points fc)),
      scheduled = fst (for_loop 0 0 locations (args_points fc)),
      outcome = (case snd (for_loop 0 0 locations (args_points fc)) of
                   None \<Rightarrow> Resolved () | Some e \<Rightarrow> Rejected e)\<rparr>"
proof -
  obtain reqs r where gp: "getPointsFromImage g frame (args_points fc) = (reqs, r)"
    by (cases "getPointsFromImage g frame (args_points fc)")
  with assms(5) have "r = Resolved locations" by simp
  then show ?thesis
    by (simp add: handle_processed [OF assms(1-4)] gp split: prod.splits option.splits)
qed

lemma getPoints_requests:
  "fst (getPointsFromImage g frame points) =
     map (\<lambda>p. (imageData frame, prompt (description p))) points"
  by (simp add: getPointsFromImage_def Let_def)

lemma getPoints_rejected:
  assumes "p \<in> set points" and "parsed (g (imageData frame) (prompt (description p))) = None"
  shows "snd (getPointsFromImage g frame points) = Rejected VisionLookupFailure"
  using assms by (auto simp: getPointsFromImage_def Let_def list_all_iff)

section \<open>The example inputs evaluated\<close>

lemma prompts_differ [simp]:
  "prompt ''button'' \<noteq> prompt ''pad''" "prompt ''pad'' \<noteq> prompt ''button''"
  by (simp_all add: prompt_def)

lemma example_capture: "captureLastFrame example_stream = Resolved ''data:image/jpeg;base64,AAAA''"
  by (simp add: captureLastFrame_def example_stream_def)

lemma example_functionCalls:
  "functionCalls example_call =
     \<lparr>name = ''move_cursor_sequence'', args_points = example_points\<rparr> # []"
  by (simp add: example_call_def)

lemma example_points_ne:
  "args_points \<lparr>name = ''move_cursor_sequence'', args_points = example_points\<rparr> \<noteq> []"
  by (simp add: example_points_def)

lemma late_functionCalls:
  "functionCalls late_call =
     \<lparr>name = ''other_tool'', args_points = []\<rparr>
     # [\<lparr>name = ''move_cursor_sequence'', args_points = example_points\<rparr>]"
  by (simp add: late_call_def)

lemma example_scheduled:
  "scheduled (handleMoveCursorInSequence example_vision (Some example_stream)
     (Some example_call)) =
   [\<lparr>timeout = 0, timer_x = Num 200, timer_y = Num 100\<rparr>,
    \<lparr>timeout = 3000, timer_x = Num 500, timer_y = Num 400\<rparr>]"
proof -
  have "snd (getPointsFromImage example_vision ''data:image/jpeg;base64,AAAA''
      (args_points \<lparr>name = ''move_cursor_sequence'', args_points = example_points\<rparr>))
      = Resolved [pad_answer, button_answer]"
    by (simp add: getPointsFromImage_def example_points_def example_vision_def)
  note run = handle_resolved [OF example_functionCalls _ example_points_ne example_capture this]
  show ?thesis
    by (simp add: run for_loop_walk example_points_def pad_answer_def button_answer_def
          element_def)
qed

lemma start_client:
  "wsClient (snd (start True d st)) =
     \<lparr>session = Active, current = Some \<lparr>is_open = True, written = [Setup (config st)]\<rparr>,
      released = released (wsClient st)
        @ (case current (wsClient st) of None \<Rightarrow> [] | Some t \<Rightarrow> [t\<lparr>is_open := False\<rparr>])\<rparr>"
  by (cases d; cases "current (wsClient st)")
    (simp_all add: start_def ws_connect_def ws_disconnect_def teardown_def let_go_def
       setConnected_def)

lemma start_flags:
  "isConnected (snd (start True d st)) \<and> config (snd (start True d st)) = config st"
  by (cases d; cases "current (wsClient st)")
    (simp_all add: start_def ws_connect_def ws_disconnect_def teardown_def let_go_def
       setConnected_def)

lemma connected_service_client:
  "wsClient connected_service =
     \<lparr>session = Active, current = Some \<lparr>is_open = True, written = [Setup example_config]\<rparr>,
      released = []\<rparr>"
  by (simp add: connected_service_def start_client new_service_def new_client_def)


section \<open>The cursor sequence\<close>

text \<open>
  Claim C1. A tool call whose first function call is \<^verbatim>\<open>move_cursor_sequence\<close> with the points
  ("pad", delay 0) and ("button", delay 3), a stream whose frame is captured, and lookups
  that answer "pad" with the point [100, 200] and "button" with [400, 500] (row, column):
  the handler registers exactly two timers, at 0 ms with x = 200, y = 100 and at 3000 ms
  with x = 500, y = 400, and each, when it fires, publishes that position.
\<close>

theorem round_trip_pad_button:
  assumes "functionCalls tc = fc # rest" and "name fc = ''move_cursor_sequence''"
    and "args_points fc =
      [\<lparr>description = ''pad'', delay = 0\<rparr>, \<lparr>description = ''button'', delay = 3\<rparr>]"
    and "captureLastFrame stream = Resolved frame"
    and "g (imageData frame) (prompt ''pad'') = Parses pad"
    and "point_of pad = Inr (Arr [Num 100, Num 200])"
    and "g (imageData frame) (prompt ''button'') = Parses button"
    and "point_of button = Inr (Arr [Num 400, Num 500])"
  shows "scheduled (handleMoveCursorInSequence g (Some stream) (Some tc)) =
           [\<lparr>timeout = 0, timer_x = Num 200, timer_y = Num 100\<rparr>,
            \<lparr>timeout = 3000, timer_x = Num 500, timer_y = Num 400\<rparr>]
         \<and> outcome (handleMoveCursorInSequence g (Some stream) (Some tc)) = Resolved ()
         \<and> map (\<lambda>t. cursorPositionSubject (fire t st))
              (scheduled (handleMoveCursorInSequence g (Some stream) (Some tc))) =
           [Some \<lparr>pos_x = Num 200, pos_y = Num 100\<rparr>,
            Some \<lparr>pos_x = Num 500, pos_y = Num 400\<rparr>]"
proof -
  have ne: "args_points fc \<noteq> []" by (simp add: assms(3))
  have "snd (getPointsFromImage g frame (args_points fc)) = Resolved [pad, button]"
    by (simp add: getPointsFromImage_def assms(3,5,7))
  note run = handle_resolved [OF assms(1,2) ne assms(4) this]
  have loop: "for_loop 0 0 [pad, button] (args_points fc) =
      ([\<lparr>timeout = 0, timer_x = Num 200, timer_y = Num 100\<rparr>,
        \<lparr>timeout = 3000, timer_x = Num 500, timer_y = Num 400\<rparr>], None)"
    by (simp add: for_loop_walk assms(3,6,8) element_def)
  show ?thesis
    by (simp add: run loop fire_def raiseMoveCursorEvent_def)
qed

theorem round_trip_pad_button_witness:
  "captureLastFrame example_stream = Resolved ''data:image/jpeg;base64,AAAA''
   \<and> example_vision (imageData ''data:image/jpeg;base64,AAAA'') (prompt ''pad'')
       = Parses pad_answer
   \<and> point_of pad_answer = Inr (Arr [Num 100, Num 200])
   \<and> example_vision (imageData ''data:image/jpeg;base64,AAAA'') (prompt ''button'')
       = Parses button_answer
   \<and> point_of button_answer = Inr (Arr [Num 400, Num 500])
   \<and> scheduled (handleMoveCursorInSequence example_vision (Some example_stream)
        (Some example_call)) =
       [\<lparr>timeout = 0, timer_x = Num 200, timer_y = Num 100\<rparr>,
        \<lparr>timeout = 3000, timer_x = Num 500, timer_y = Num 400\<rparr>]"
proof -
  have a: "example_vision (imageData ''data:image/jpeg;base64,AAAA'') (prompt ''pad'')
      = Parses pad_answer"
    by (simp add: example_vision_def)
  have b: "example_vision (imageData ''data:image/jpeg;base64,AAAA'') (prompt ''button'')
      = Parses button_answer"
    by (simp add: example_vision_def)
  have pa: "point_of pad_answer = Inr (Arr [Num 100, Num 200])"
    by (simp add: pad_answer_def)
  have pb: "point_of button_answer = Inr (Arr [Num 400, Num 500])"
    by (simp add: button_answer_def)
  have pts: "args_points \<lparr>name = ''move_cursor_sequence'', args_points = example_points\<rparr> =
      [\<lparr>description = ''pad'', delay = 0\<rparr>, \<lparr>description = ''button'', delay = 3\<rparr>]"
    by (simp add: example_points_def)
  show ?thesis
    using round_trip_pad_button [of example_call
        "\<lparr>name = ''move_cursor_sequence'', args_points = example_points\<rparr>" "[]"
        example_stream "''data:image/jpeg;base64,AAAA''" example_vision pad_answer
        button_answer connected_service]
      example_functionCalls pts a b pa pb example_capture
    by simp
qed

text \<open>
  Claim C2, as amended. The claim says that a failed lookup loses only its own point. The
  lookups are joined by \<^verbatim>\<open>Promise.all\<close> and nothing catches its rejection: when the lookup
  of any point of a processed call fails (the request is rejected or the answer does not
  parse), no timer is registered for any point and the handler's promise is rejected.
\<close>

theorem lookup_failure_cancels_all:
  assumes "functionCalls tc = fc # rest" and "name fc = ''move_cursor_sequence''"
    and "captureLastFrame stream = Resolved frame"
    and "p \<in> set (args_points fc)"
    and "parsed (g (imageData frame) (prompt (description p))) = None"
  shows "scheduled (handleMoveCursorInSequence g (Some stream) (Some tc)) = []
         \<and> outcome (handleMoveCursorInSequence g (Some stream) (Some tc)) =
             Rejected VisionLookupFailure"
proof -
  from assms(4) have ne: "args_points fc \<noteq> []" by auto
  show ?thesis
    using getPoints_rejected [of p "args_points fc" g frame] assms(4,5)
    by (simp add: handle_rejected [OF assms(1,2) ne assms(3)])
qed

theorem lookup_failure_cancels_all_witness:
  "\<lparr>description = ''pad'', delay = 0\<rparr> \<in> set example_points
   \<and> parsed (failing_vision (imageData ''data:image/jpeg;base64,AAAA'') (prompt ''pad'')) = None
   \<and> scheduled (handleMoveCursorInSequence failing_vision (Some example_stream)
        (Some example_call)) = []
   \<and> outcome (handleMoveCursorInSequence failing_vision (Some example_stream)
        (Some example_call)) = Rejected VisionLookupFailure"
proof -
  have m: "\<lparr>description = ''pad'', delay = 0\<rparr>
      \<in> set (args_points \<lparr>name = ''move_cursor_sequence'', args_points = example_points\<rparr>)"
    by (simp add: example_points_def)
  have f: "parsed (failing_vision (imageData ''data:image/jpeg;base64,AAAA'')
      (prompt (description \<lparr>description = ''pad'', delay = 0\<rparr>))) = None"
    by (simp add: failing_vision_def)
  show ?thesis
    using lookup_failure_cancels_all [of example_call
        "\<lparr>name = ''move_cursor_sequence'', args_points = example_points\<rparr>" "[]"
        example_stream "''data:image/jpeg;base64,AAAA''"
        "\<lparr>description = ''pad'', delay = 0\<rparr>" failing_vision]
      example_functionCalls example_capture m f
    by simp
qed

text \<open>
  The claim C2 as stated fails: the lookup for "pad" returns text that does not parse, the
  lookup for "button" succeeds with [400, 500], and no cursor event is scheduled for
  "button".
\<close>

theorem lookup_failure_not_isolated:
  "parsed (failing_vision (imageData ''data:image/jpeg;base64,AAAA'') (prompt ''pad'')) = None
   \<and> failing_vision (imageData ''data:image/jpeg;base64,AAAA'') (prompt ''button'')
       = Parses button_answer
   \<and> point_of button_answer = Inr (Arr [Num 400, Num 500])
   \<and> \<lparr>timeout = 3000, timer_x = Num 500, timer_y = Num 400\<rparr>
       \<notin> set (scheduled (handleMoveCursorInSequence failing_vision (Some example_stream)
            (Some example_call)))
   \<and> scheduled (handleMoveCursorInSequence failing_vision (Some example_stream)
        (Some example_call)) = []"
proof -
  have "snd (getPointsFromImage failing_vision ''data:image/jpeg;base64,AAAA''
      (args_points \<lparr>name = ''move_cursor_sequence'', args_points = example_points\<rparr>))
      = Rejected VisionLookupFailure"
    by (rule getPoints_rejected [of "\<lparr>description = ''pad'', delay = 0\<rparr>"])
      (simp_all add: example_points_def failing_vision_def)
  note run = handle_rejected [OF example_functionCalls _ example_points_ne example_capture this]
  show ?thesis
    by (simp add: run failing_vision_def button_answer_def)
qed

text \<open>
  Claim C7. For a processed call (first function call \<^verbatim>\<open>move_cursor_sequence\<close>, points not
  empty, the frame captured), \<^verbatim>\<open>captureLastFrame\<close> is called exactly once, on the service's
  stream, and one lookup per point is issued, in point order, each with the image data of
  that one frame.
\<close>

theorem one_frame_for_all_lookups:
  assumes "functionCalls tc = fc # rest" and "name fc = ''move_cursor_sequence''"
    and "args_points fc \<noteq> []" and "captureLastFrame stream = Resolved frame"
  shows "captures (handleMoveCursorInSequence g (Some stream) (Some tc)) = [stream]
         \<and> lookups (handleMoveCursorInSequence g (Some stream) (Some tc)) =
             map (\<lambda>p. (imageData frame, prompt (description p))) (args_points fc)"
proof -
  obtain reqs r where gp: "getPointsFromImage g frame (args_points fc) = (reqs, r)"
    by (cases "getPointsFromImage g frame (args_points fc)")
  with getPoints_requests [of g frame "args_points fc"]
  have reqs: "reqs = map (\<lambda>p. (imageData frame, prompt (description p))) (args_points fc)"
    by simp
  show ?thesis
    by (simp add: handle_processed [OF assms] gp reqs
          split: promise.splits prod.splits option.splits)
qed

theorem one_frame_for_all_lookups_witness:
  "captureLastFrame example_stream = Resolved ''data:image/jpeg;base64,AAAA''
   \<and> captures (handleMoveCursorInSequence example_vision (Some example_stream)
        (Some example_call)) = [example_stream]
   \<and> lookups (handleMoveCursorInSequence example_vision (Some example_stream)
        (Some example_call)) = [(''AAAA'', prompt ''pad''), (''AAAA'', prompt ''button'')]"
  using one_frame_for_all_lookups [OF example_functionCalls _ example_points_ne example_capture,
      of example_vision] example_capture
  by (simp add: example_points_def imageData_def slice_def)

text \<open>
  Claim C9. The handler registers timers only for a call whose \<^verbatim>\<open>functionCalls\<close> is not
  empty and starts with a call named \<^verbatim>\<open>move_cursor_sequence\<close>; when the first function call
  has another name the handler does nothing, whatever follows it; in general its run
  depends on the first function call only.
\<close>

theorem only_first_function_call:
  "(scheduled (handleMoveCursorInSequence g s toolCall) \<noteq> [] \<longrightarrow>
      (\<exists>tc fc rest. toolCall = Some tc \<and> functionCalls tc = fc # rest
         \<and> name fc = ''move_cursor_sequence''))
   \<and> (functionCalls tc = fc # rest \<and> name fc \<noteq> ''move_cursor_sequence'' \<longrightarrow>
        handleMoveCursorInSequence g s (Some tc) = nothing)
   \<and> (functionCalls tc = fc # rest \<longrightarrow>
        handleMoveCursorInSequence g s (Some tc) =
        handleMoveCursorInSequence g s (Some (tc\<lparr>functionCalls := [fc]\<rparr>)))"
  by (auto simp: handleMoveCursorInSequence_def nothing_def split: option.splits list.splits)

theorem only_first_function_call_witness:
  "scheduled (handleMoveCursorInSequence example_vision (Some example_stream)
     (Some example_call)) \<noteq> []
   \<and> (\<exists>tc fc rest. Some example_call = Some tc \<and> functionCalls tc = fc # rest
        \<and> name fc = ''move_cursor_sequence'')
   \<and> functionCalls late_call =
       [\<lparr>name = ''other_tool'', args_points = []\<rparr>,
        \<lparr>name = ''move_cursor_sequence'', args_points = example_points\<rparr>]
   \<and> handleMoveCursorInSequence example_vision (Some example_stream) (Some late_call)
       = nothing
   \<and> handleMoveCursorInSequence example_vision (Some example_stream) (Some late_call) =
       handleMoveCursorInSequence example_vision (Some example_stream)
         (Some (late_call\<lparr>functionCalls := [\<lparr>name = ''other_tool'', args_points = []\<rparr>]\<rparr>))"
proof -
  have a: "scheduled (handleMoveCursorInSequence example_vision (Some example_stream)
      (Some example_call)) \<noteq> []"
    by (simp add: example_scheduled)
  have n: "name \<lparr>name = ''other_tool'', args_points = []\<rparr> \<noteq> ''move_cursor_sequence''"
    by simp
  from only_first_function_call [of example_vision "Some example_stream" "Some example_call"
      late_call "\<lparr>name = ''other_tool'', args_points = []\<rparr>"
      "[\<lparr>name = ''move_cursor_sequence'', args_points = example_points\<rparr>]"]
    a n late_functionCalls
  show ?thesis by auto
qed



section \<open>Sending, connecting, interruption\<close>

text \<open>
  Claim C3. For every list of chunks, \<^verbatim>\<open>sendRealtimeInput\<close> on a service whose session is not
  Active is rejected with NotConnected, leaves the service as it was and writes nothing to
  any transport. The service passes the chunks to the client with no guard of its own; the
  rejection is the specified client's.
\<close>

theorem sendRealtimeInput_not_connected:
  assumes "session (wsClient st) \<noteq> Active"
  shows "sendRealtimeInput chunks st = (Rejected NotConnected, st)
         \<and> wire (wsClient (snd (sendRealtimeInput chunks st))) = wire (wsClient st)"
  using assms by (simp add: sendRealtimeInput_def ws_sendRealtimeInput_def)

theorem sendRealtimeInput_not_connected_witness:
  "session (wsClient (new_service example_config :: unit service)) \<noteq> Active
   \<and> sendRealtimeInput [\<lparr>mimeType = ''image/jpeg'', blob_data = ''AAAA''\<rparr>]
        (new_service example_config :: unit service)
       = (Rejected NotConnected, new_service example_config)
   \<and> wire (wsClient (snd (sendRealtimeInput [\<lparr>mimeType = ''image/jpeg'', blob_data = ''AAAA''\<rparr>]
        (new_service example_config :: unit service)))) = []"
proof -
  have a: "session (wsClient (new_service example_config :: unit service)) \<noteq> Active"
    by (simp add: new_service_def new_client_def)
  have w: "wire (wsClient (new_service example_config :: unit service)) = []"
    by (simp add: new_service_def new_client_def wire_def transports_def)
  from sendRealtimeInput_not_connected [OF a,
      of "[\<lparr>mimeType = ''image/jpeg'', blob_data = ''AAAA''\<rparr>]"] a w
  show ?thesis by simp
qed





text \<open>
  Claim C6. \<^verbatim>\<open>start\<close> twice in a row, the transport opening both times, on a service
  that has leaked no transport before: the transport of the first connect is closed and
  released by the second, which holds a new open transport; exactly one transport is open,
  the session is Active and the service is connected.
\<close>

theorem start_twice_one_session:
  assumes "list_all (\<lambda>t. \<not> is_open t) (released (wsClient st))"
  shows "\<exists>t1. current (wsClient (snd (start True d1 st))) = Some t1 \<and> is_open t1
           \<and> released (wsClient (snd (start True d2 (snd (start True d1 st))))) =
               released (wsClient (snd (start True d1 st))) @ [t1\<lparr>is_open := False\<rparr>]
           \<and> current (wsClient (snd (start True d2 (snd (start True d1 st))))) =
               Some \<lparr>is_open = True, written = [Setup (config st)]\<rparr>
           \<and> open_transports (wsClient (snd (start True d2 (snd (start True d1 st))))) = 1
           \<and> session (wsClient (snd (start True d2 (snd (start True d1 st))))) = Active
           \<and> isConnected (snd (start True d2 (snd (start True d1 st))))"
proof -
  have closed: "filter is_open (released (wsClient st)) = []"
    using assms by (simp add: list_all_iff filter_empty_conv)
  show ?thesis
    by (cases "current (wsClient st)")
      (simp_all add: start_client start_flags open_transports_def transports_def closed)
qed

theorem start_twice_one_session_witness:
  "list_all (\<lambda>t. \<not> is_open t) (released (wsClient (new_service example_config :: unit service)))
   \<and> released (wsClient (snd (start True (Resolved example_stream) connected_service))) =
       [\<lparr>is_open = False, written = [Setup example_config]\<rparr>]
   \<and> open_transports (wsClient (snd (start True (Resolved example_stream) connected_service)))
       = 1"
proof -
  have a: "list_all (\<lambda>t. \<not> is_open t)
      (released (wsClient (new_service example_config :: unit service)))"
    by (simp add: new_service_def new_client_def)
  from start_twice_one_session [OF a, of "Resolved example_stream" "Resolved example_stream"] a
  show ?thesis
    by (auto simp: connected_service_def [symmetric] connected_service_client)
qed

text \<open>
  Claim C8. The \<^verbatim>\<open>interrupted\<close> listener only stops the audio streamer, if there is one.
  The pending timers, the connection flags, the content and tool subjects and the client
  are unchanged; a pending timer fires with the same effect after the interruption as
  before it, and a run of the handler reads the same stream.
\<close>

theorem interrupted_only_stops_audio:
  "on_event g stopStreamer addPCM16 InterruptedEvent st =
     st\<lparr>audioStreamer := map_option stopStreamer (audioStreamer st)\<rparr>
   \<and> pendingTimers (on_event g stopStreamer addPCM16 InterruptedEvent st) = pendingTimers st
   \<and> isConnected (on_event g stopStreamer addPCM16 InterruptedEvent st) = isConnected st
   \<and> connectedSubject (on_event g stopStreamer addPCM16 InterruptedEvent st)
       = connectedSubject st
   \<and> contentSubject (on_event g stopStreamer addPCM16 InterruptedEvent st) = contentSubject st
   \<and> toolSubject (on_event g stopStreamer addPCM16 InterruptedEvent st) = toolSubject st
   \<and> wsClient (on_event g stopStreamer addPCM16 InterruptedEvent st) = wsClient st
   \<and> cursorPositionSubject (fire t (on_event g stopStreamer addPCM16 InterruptedEvent st))
       = cursorPositionSubject (fire t st)
   \<and> pendingTimers (fire t (on_event g stopStreamer addPCM16 InterruptedEvent st))
       = pendingTimers (fire t st)
   \<and> handleMoveCursorInSequence g
        (screenStream (on_event g stopStreamer addPCM16 InterruptedEvent st)) toolCall
       = handleMoveCursorInSequence g (screenStream st) toolCall"
  by (simp add: stopAudioStreamer_def fire_def raiseMoveCursorEvent_def)

end
